theory Spec2Isabelle
  imports Main "HOL-Library.Word"
begin

section \<open>The platform: strings, values, JSON\<close>

text \<open>
  \<^verbatim>\<open>script.js\<close> is glue over three browser facilities: the DOM (a text input, a list
  of rows, the class list of \<^verbatim>\<open>body\<close>), \<^verbatim>\<open>localStorage\<close> and \<^verbatim>\<open>JSON\<close>. This section
  models what the script uses of them. An ECMAScript string is a sequence of 16-bit code
  units.
\<close>

type_synonym ustring = "16 word list"

definition ustr :: "string \<Rightarrow> ustring" where
  "ustr s = map of_char s"

text \<open>
  \<^verbatim>\<open>String.prototype.trim\<close> strips WhiteSpace and LineTerminator code points from both
  ends: TAB, LF, VT, FF, CR, SP, NBSP, U+1680, U+2000 to U+200A, U+2028, U+2029, U+202F,
  U+205F, U+3000 and U+FEFF.
\<close>

definition is_js_space :: "16 word \<Rightarrow> bool" where
  "is_js_space c \<longleftrightarrow>
     c = 0x9 \<or> c = 0xA \<or> c = 0xB \<or> c = 0xC \<or> c = 0xD \<or> c = 0x20 \<or> c = 0xA0 \<or>
     c = 0x1680 \<or> (0x2000 \<le> c \<and> c \<le> 0x200A) \<or> c = 0x2028 \<or> c = 0x2029 \<or>
     c = 0x202F \<or> c = 0x205F \<or> c = 0x3000 \<or> c = 0xFEFF"

definition trim :: "ustring \<Rightarrow> ustring" where
  "trim s = rev (dropWhile is_js_space (rev (dropWhile is_js_space s)))"

text \<open>
  The values that reach \<^verbatim>\<open>addTask\<close>: \<^verbatim>\<open>undefined\<close> (an argument that was not passed),
  what \<^verbatim>\<open>JSON.parse\<close> can build, and the event object a listener is called with, of
  which only the interface name (its \<^verbatim>\<open>Symbol.toStringTag\<close>) is observed. A number is kept
  as its JSON literal; an object keeps its members in source order.
\<close>

datatype jsval =
    JUndefined
  | JNull
  | JBool bool
  | JNum ustring
  | JStr ustring
  | JArr "jsval list"
  | JObj "(ustring \<times> jsval) list"
  | JEvent ustring

datatype js_error = SyntaxError | TypeError

text \<open>
  Floating point is not modelled: the two things the script can do with a number read
  from storage (write it into \<^verbatim>\<open>textContent\<close>, test it in \<^verbatim>\<open>if\<close>) are parameters,
  each a function of the number's literal.
\<close>

record numsem =
  NumberToString :: "ustring \<Rightarrow> ustring"
  NumberToBoolean :: "ustring \<Rightarrow> bool"

text \<open>
  \<^verbatim>\<open>ToString\<close>. A plain object has no callable \<^verbatim>\<open>toString\<close> once it owns a member of that
  name (no JSON value is callable), and \<^verbatim>\<open>valueOf\<close> never yields a primitive, so the
  conversion throws; otherwise \<^verbatim>\<open>Object.prototype.toString\<close> answers. An array goes
  through \<^verbatim>\<open>join\<close>, which renders \<^verbatim>\<open>null\<close> and \<^verbatim>\<open>undefined\<close> elements as empty.
\<close>

fun ToString :: "numsem \<Rightarrow> jsval \<Rightarrow> js_error + ustring"
  and join :: "numsem \<Rightarrow> jsval list \<Rightarrow> js_error + ustring" where
  "ToString N JUndefined = Inr (ustr ''undefined'')"
| "ToString N JNull = Inr (ustr ''null'')"
| "ToString N (JBool b) = Inr (if b then ustr ''true'' else ustr ''false'')"
| "ToString N (JNum l) = Inr (NumberToString N l)"
| "ToString N (JStr s) = Inr s"
| "ToString N (JArr xs) = join N xs"
| "ToString N (JObj kvs) =
     (if ustr ''toString'' \<in> fst ` set kvs then Inl TypeError
      else Inr (ustr ''[object Object]''))"
| "ToString N (JEvent n) = Inr (ustr ''[object '' @ n @ ustr '']'')"
| "join N [] = Inr []"
| "join N (x # xs) =
     (case (if x = JNull \<or> x = JUndefined then Inr [] else ToString N x) of
        Inl e \<Rightarrow> Inl e
      | Inr s \<Rightarrow>
          (if xs = [] then Inr s
           else (case join N xs of
                   Inl e \<Rightarrow> Inl e
                 | Inr r \<Rightarrow> Inr (s @ ustr '','' @ r))))"

text \<open>
  Assigning to \<^verbatim>\<open>textContent\<close>, a nullable \<^verbatim>\<open>DOMString\<close>: \<^verbatim>\<open>null\<close> and \<^verbatim>\<open>undefined\<close>
  give the empty string, anything else goes through \<^verbatim>\<open>ToString\<close>.
\<close>

definition dom_string :: "numsem \<Rightarrow> jsval \<Rightarrow> js_error + ustring" where
  "dom_string N v = (if v = JNull \<or> v = JUndefined then Inr [] else ToString N v)"

fun ToBoolean :: "numsem \<Rightarrow> jsval \<Rightarrow> bool" where
  "ToBoolean N JUndefined = False"
| "ToBoolean N JNull = False"
| "ToBoolean N (JBool b) = b"
| "ToBoolean N (JNum l) = NumberToBoolean N l"
| "ToBoolean N (JStr s) = (s \<noteq> [])"
| "ToBoolean N (JArr xs) = True"
| "ToBoolean N (JObj kvs) = True"
| "ToBoolean N (JEvent n) = True"

text \<open>
  Reading the property \<^verbatim>\<open>text\<close> or \<^verbatim>\<open>completed\<close> of a parsed value. Neither name is
  defined on a prototype, so only an object's own member answers (the last one of that
  name, as \<^verbatim>\<open>JSON.parse\<close> keeps it); \<^verbatim>\<open>null\<close> has no properties at all.
\<close>

fun get_member :: "jsval \<Rightarrow> ustring \<Rightarrow> js_error + jsval" where
  "get_member JNull k = Inl TypeError"
| "get_member JUndefined k = Inl TypeError"
| "get_member (JObj kvs) k =
     (case map_of (rev kvs) k of None \<Rightarrow> Inr JUndefined | Some v \<Rightarrow> Inr v)"
| "get_member v k = Inr JUndefined"

subsection \<open>JSON.stringify on strings\<close>

definition is_lead :: "16 word \<Rightarrow> bool" where
  "is_lead c \<longleftrightarrow> 0xD800 \<le> c \<and> c \<le> 0xDBFF"

definition is_trail :: "16 word \<Rightarrow> bool" where
  "is_trail c \<longleftrightarrow> 0xDC00 \<le> c \<and> c \<le> 0xDFFF"

definition hex_digit :: "nat \<Rightarrow> 16 word" where
  "hex_digit d = of_nat (if d < 10 then 48 + d else 97 + (d - 10))"

text \<open>A backslash, \<^verbatim>\<open>u\<close> and the four lower-case hexadecimal digits of the code unit.\<close>

definition UnicodeEscape :: "16 word \<Rightarrow> ustring" where
  "UnicodeEscape c =
     (let n = unat c
      in [0x5C, 0x75,
          hex_digit (n div 4096),
          hex_digit (n div 256 mod 16),
          hex_digit (n div 16 mod 16),
          hex_digit (n mod 16)])"

text \<open>One code point that is not half of a well-formed surrogate pair.\<close>

definition quote_unit :: "16 word \<Rightarrow> ustring" where
  "quote_unit c =
     (if c = 0x8 then [0x5C, 0x62]
      else if c = 0x9 then [0x5C, 0x74]
      else if c = 0xA then [0x5C, 0x6E]
      else if c = 0xC then [0x5C, 0x66]
      else if c = 0xD then [0x5C, 0x72]
      else if c = 0x22 then [0x5C, 0x22]
      else if c = 0x5C then [0x5C, 0x5C]
      else if c < 0x20 \<or> is_lead c \<or> is_trail c then UnicodeEscape c
      else [c])"

fun quote_units :: "ustring \<Rightarrow> ustring" where
  "quote_units [] = []"
| "quote_units [c] = quote_unit c"
| "quote_units (c # d # cs) =
     (if is_lead c \<and> is_trail d then c # d # quote_units cs
      else quote_unit c @ quote_units (d # cs))"

definition QuoteJSONString :: "ustring \<Rightarrow> ustring" where
  "QuoteJSONString s = 0x22 # quote_units s @ [0x22]"

subsection \<open>JSON.parse\<close>

datatype token =
    TLBrack | TRBrack | TLBrace | TRBrace | TColon | TComma
  | TNull | TTrue | TFalse
  | TNum ustring
  | TStr ustring

definition hex_value :: "16 word \<Rightarrow> nat option" where
  "hex_value c =
     (let n = unat c
      in if 48 \<le> n \<and> n \<le> 57 then Some (n - 48)
         else if 97 \<le> n \<and> n \<le> 102 then Some (n - 97 + 10)
         else if 65 \<le> n \<and> n \<le> 70 then Some (n - 65 + 10)
         else None)"

definition unhex4 :: "16 word \<Rightarrow> 16 word \<Rightarrow> 16 word \<Rightarrow> 16 word \<Rightarrow> 16 word option" where
  "unhex4 a b c d =
     (case (hex_value a, hex_value b, hex_value c, hex_value d) of
        (Some x, Some y, Some z, Some w) \<Rightarrow>
          Some (of_nat (4096 * x + 256 * y + 16 * z + w))
      | _ \<Rightarrow> None)"

definition simple_escape :: "16 word \<Rightarrow> 16 word option" where
  "simple_escape e =
     (if e = 0x22 then Some 0x22
      else if e = 0x5C then Some 0x5C
      else if e = 0x2F then Some 0x2F
      else if e = 0x62 then Some 0x8
      else if e = 0x66 then Some 0xC
      else if e = 0x6E then Some 0xA
      else if e = 0x72 then Some 0xD
      else if e = 0x74 then Some 0x9
      else None)"

definition put :: "16 word \<Rightarrow> (ustring \<times> ustring) option \<Rightarrow> (ustring \<times> ustring) option" where
  "put c r = (case r of None \<Rightarrow> None | Some (s, rest) \<Rightarrow> Some (c # s, rest))"

text \<open>
  The characters of a string after its opening quote, up to the closing one: the string's
  value and the input left.
\<close>

fun lex_string :: "ustring \<Rightarrow> (ustring \<times> ustring) option" where
  "lex_string [] = None"
| "lex_string (c # cs) =
     (if c = 0x22 then Some ([], cs)
      else if c = 0x5C then
        (case cs of
           [] \<Rightarrow> None
         | e # es \<Rightarrow>
             if e = 0x75 then
               (case es of
                  h1 # h2 # h3 # h4 # rest \<Rightarrow>
                    (case unhex4 h1 h2 h3 h4 of
                       None \<Rightarrow> None
                     | Some u \<Rightarrow> put u (lex_string rest))
                | _ \<Rightarrow> None)
             else
               (case simple_escape e of
                  None \<Rightarrow> None
                | Some u \<Rightarrow> put u (lex_string es)))
      else if c < 0x20 then None
      else put c (lex_string cs))"

definition is_digit :: "16 word \<Rightarrow> bool" where
  "is_digit c \<longleftrightarrow> 0x30 \<le> c \<and> c \<le> 0x39"

text \<open>
  A number: \<^verbatim>\<open>-? (0 | [1-9][0-9]*) (. [0-9]+)? ([eE] [+-]? [0-9]+)?\<close>. Each part
  returns what it consumed and the input left.
\<close>

definition lex_sign :: "ustring \<Rightarrow> ustring \<times> ustring" where
  "lex_sign cs = (case cs of c # r \<Rightarrow> if c = 0x2D then ([c], r) else ([], cs) | [] \<Rightarrow> ([], cs))"

definition lex_int :: "ustring \<Rightarrow> (ustring \<times> ustring) option" where
  "lex_int cs =
     (case cs of
        [] \<Rightarrow> None
      | c # r \<Rightarrow>
          if c = 0x30 then Some ([c], r)
          else if is_digit c then Some (takeWhile is_digit cs, dropWhile is_digit cs)
          else None)"

definition lex_frac :: "ustring \<Rightarrow> (ustring \<times> ustring) option" where
  "lex_frac cs =
     (case cs of
        [] \<Rightarrow> Some ([], cs)
      | c # r \<Rightarrow>
          if c = 0x2E then
            (if takeWhile is_digit r = [] then None
             else Some (c # takeWhile is_digit r, dropWhile is_digit r))
          else Some ([], cs))"

definition lex_exp :: "ustring \<Rightarrow> (ustring \<times> ustring) option" where
  "lex_exp cs =
     (case cs of
        [] \<Rightarrow> Some ([], cs)
      | c # r \<Rightarrow>
          if c = 0x65 \<or> c = 0x45 then
            (let (sg, r') =
               (case r of
                  s # t \<Rightarrow> if s = 0x2B \<or> s = 0x2D then ([s], t) else ([], r)
                | [] \<Rightarrow> ([], r))
             in if takeWhile is_digit r' = [] then None
                else Some (c # sg @ takeWhile is_digit r', dropWhile is_digit r'))
          else Some ([], cs))"

definition lex_number :: "ustring \<Rightarrow> (ustring \<times> ustring) option" where
  "lex_number cs =
     (let (sg, r0) = lex_sign cs in
      case lex_int r0 of
        None \<Rightarrow> None
      | Some (ip, r1) \<Rightarrow>
          (case lex_frac r1 of
             None \<Rightarrow> None
           | Some (fp, r2) \<Rightarrow>
               (case lex_exp r2 of
                  None \<Rightarrow> None
                | Some (ep, r3) \<Rightarrow> Some (sg @ ip @ fp @ ep, r3))))"

definition is_json_ws :: "16 word \<Rightarrow> bool" where
  "is_json_ws c \<longleftrightarrow> c = 0x9 \<or> c = 0xA \<or> c = 0xD \<or> c = 0x20"

definition emit :: "token \<Rightarrow> token list option \<Rightarrow> token list option" where
  "emit t r = (case r of None \<Rightarrow> None | Some ts \<Rightarrow> Some (t # ts))"

text \<open>The tokens of a JSON text; \<^verbatim>\<open>None\<close> where no token starts.\<close>

function tokenize :: "ustring \<Rightarrow> token list option" where
  "tokenize [] = Some []"
| "tokenize (c # cs) =
     (if is_json_ws c then tokenize cs
      else if c = 0x5B then emit TLBrack (tokenize cs)
      else if c = 0x5D then emit TRBrack (tokenize cs)
      else if c = 0x7B then emit TLBrace (tokenize cs)
      else if c = 0x7D then emit TRBrace (tokenize cs)
      else if c = 0x3A then emit TColon (tokenize cs)
      else if c = 0x2C then emit TComma (tokenize cs)
      else if c = 0x22 then
        (case lex_string cs of
           None \<Rightarrow> None
         | Some (s, rest) \<Rightarrow> emit (TStr s) (tokenize rest))
      else if c = 0x2D \<or> is_digit c then
        (case lex_number (c # cs) of
           None \<Rightarrow> None
         | Some (l, rest) \<Rightarrow> emit (TNum l) (tokenize rest))
      else if take 4 (c # cs) = ustr ''null'' then emit TNull (tokenize (drop 3 cs))
      else if take 4 (c # cs) = ustr ''true'' then emit TTrue (tokenize (drop 3 cs))
      else if take 5 (c # cs) = ustr ''false'' then emit TFalse (tokenize (drop 4 cs))
      else None)"
  by pat_completeness auto
termination
proof -
  have str: "length rest < length cs" if "lex_string cs = Some (s, rest)" for cs s rest
    using that
  proof (induction cs arbitrary: s rest rule: lex_string.induct)
    case 1
    then show ?case by simp
  next
    case (2 c cs)
    show ?case
      using "2.prems" "2.IH"
      by (fastforce simp: put_def split: if_splits list.splits option.splits)
  qed
  have dw: "length (dropWhile is_digit t) \<le> length t" for t
    by (rule length_dropWhile_le)
  have sg: "length rest \<le> length cs" if "lex_sign cs = (l, rest)" for cs l rest
    using that by (auto simp: lex_sign_def split: list.splits if_splits)
  have ip: "length rest < length cs" if "lex_int cs = Some (l, rest)" for cs l rest
  proof (cases cs)
    case Nil
    with that show ?thesis by (simp add: lex_int_def)
  next
    case (Cons c r)
    with that dw [of r] show ?thesis
      by (auto simp: lex_int_def split: if_splits)
  qed
  have fp: "length rest \<le> length cs" if "lex_frac cs = Some (l, rest)" for cs l rest
  proof (cases cs)
    case Nil
    with that show ?thesis by (simp add: lex_frac_def)
  next
    case (Cons c r)
    with that dw [of r] show ?thesis
      by (auto simp: lex_frac_def split: if_splits)
  qed
  have ep: "length rest \<le> length cs" if "lex_exp cs = Some (l, rest)" for cs l rest
  proof (cases cs)
    case Nil
    with that show ?thesis by (simp add: lex_exp_def)
  next
    case c: (Cons c r)
    show ?thesis
    proof (cases r)
      case Nil
      with that c show ?thesis
        by (auto simp: lex_exp_def split: if_splits)
    next
      case (Cons s t)
      with that c dw [of t] dw [of r] show ?thesis
        by (auto simp: lex_exp_def split: if_splits)
    qed
  qed
  have num: "length rest < length cs" if a: "lex_number cs = Some (l, rest)" for cs l rest
  proof -
    obtain s0 r0 where s: "lex_sign cs = (s0, r0)"
      by (cases "lex_sign cs")
    from a s obtain i1 r1 where i: "lex_int r0 = Some (i1, r1)"
      by (auto simp: lex_number_def split: option.splits)
    from a s i obtain f2 r2 where f: "lex_frac r1 = Some (f2, r2)"
      by (auto simp: lex_number_def split: option.splits)
    from a s i f obtain e3 where e: "lex_exp r2 = Some (e3, rest)"
      by (auto simp: lex_number_def split: option.splits)
    from sg [OF s] ip [OF i] fp [OF f] ep [OF e] show ?thesis by simp
  qed
  show ?thesis
    by (relation "measure length") (auto dest: str num simp: less_Suc_eq_le)
qed

text \<open>
  The grammar of values over the tokens, as a pushdown automaton: the stack holds the
  arrays and objects that are still open, innermost first, each with what it has collected
  so far (latest first).
\<close>

datatype frame =
    InArr "jsval list"
  | InObj "(ustring \<times> jsval) list"
  | InMember "(ustring \<times> jsval) list" ustring

datatype pmode = PValue | PFirst | PAfter | PKey | PFirstKey | PColon | PDone jsval

type_synonym pstate = "pmode \<times> frame list"

fun deliver :: "jsval \<Rightarrow> frame list \<Rightarrow> pstate option" where
  "deliver v [] = Some (PDone v, [])"
| "deliver v (InArr acc # st) = Some (PAfter, InArr (v # acc) # st)"
| "deliver v (InMember ms k # st) = Some (PAfter, InObj ((k, v) # ms) # st)"
| "deliver v (InObj ms # st) = None"

fun begin_value :: "token \<Rightarrow> frame list \<Rightarrow> pstate option" where
  "begin_value TNull st = deliver JNull st"
| "begin_value TTrue st = deliver (JBool True) st"
| "begin_value TFalse st = deliver (JBool False) st"
| "begin_value (TNum l) st = deliver (JNum l) st"
| "begin_value (TStr s) st = deliver (JStr s) st"
| "begin_value TLBrack st = Some (PFirst, InArr [] # st)"
| "begin_value TLBrace st = Some (PFirstKey, InObj [] # st)"
| "begin_value t st = None"

fun close_array :: "frame list \<Rightarrow> pstate option" where
  "close_array (InArr acc # st) = deliver (JArr (rev acc)) st"
| "close_array st = None"

fun close_object :: "frame list \<Rightarrow> pstate option" where
  "close_object (InObj ms # st) = deliver (JObj (rev ms)) st"
| "close_object st = None"

fun after_comma :: "frame list \<Rightarrow> pstate option" where
  "after_comma (InArr acc # st) = Some (PValue, InArr acc # st)"
| "after_comma (InObj ms # st) = Some (PKey, InObj ms # st)"
| "after_comma st = None"

fun begin_member :: "token \<Rightarrow> frame list \<Rightarrow> pstate option" where
  "begin_member (TStr k) (InObj ms # st) = Some (PColon, InMember ms k # st)"
| "begin_member t st = None"

fun pstep :: "pstate \<Rightarrow> token \<Rightarrow> pstate option" where
  "pstep (PValue, st) t = begin_value t st"
| "pstep (PFirst, st) t = (if t = TRBrack then close_array st else begin_value t st)"
| "pstep (PAfter, st) t =
     (if t = TComma then after_comma st
      else if t = TRBrack then close_array st
      else if t = TRBrace then close_object st
      else None)"
| "pstep (PKey, st) t = begin_member t st"
| "pstep (PFirstKey, st) t = (if t = TRBrace then close_object st else begin_member t st)"
| "pstep (PColon, st) t = (if t = TColon then Some (PValue, st) else None)"
| "pstep (PDone v, st) t = None"

fun parse_tokens :: "pstate \<Rightarrow> token list \<Rightarrow> jsval option" where
  "parse_tokens (m, st) [] = (case m of PDone v \<Rightarrow> Some v | _ \<Rightarrow> None)"
| "parse_tokens s (t # ts) =
     (case pstep s t of None \<Rightarrow> None | Some s' \<Rightarrow> parse_tokens s' ts)"

definition JSON_parse :: "ustring \<Rightarrow> js_error + jsval" where
  "JSON_parse s =
     (case tokenize s of
        None \<Rightarrow> Inl SyntaxError
      | Some ts \<Rightarrow>
          (case parse_tokens (PValue, []) ts of
             None \<Rightarrow> Inl SyntaxError
           | Some v \<Rightarrow> Inr v))"

section \<open>The page\<close>

text \<open>
  A row of the list is an \<^verbatim>\<open>li\<close> holding a \<^verbatim>\<open>span.task-text\<close> and a
  \<^verbatim>\<open>button.delete-button\<close>; the script reads the span's text and whether the \<^verbatim>\<open>li\<close>
  carries the class \<^verbatim>\<open>completed\<close>. The page is what the handlers read and write: the
  value of \<^verbatim>\<open>#task-input\<close>, the rows of \<^verbatim>\<open>#task-list\<close> in document order, whether
  \<^verbatim>\<open>body\<close> carries \<^verbatim>\<open>dark-theme\<close>, \<^verbatim>\<open>localStorage\<close>, and the alerts shown so far.
  Storage is taken to accept every write (no quota).
\<close>

record li =
  task_text :: ustring
  completed :: bool

record page =
  taskInput_value :: ustring
  taskList :: "li list"
  dark_theme :: bool
  localStorage :: "ustring \<rightharpoonup> ustring"
  alerts :: "ustring list"

text \<open>
  \<^verbatim>\<open>JSON.stringify(tasks)\<close> for the array \<^verbatim>\<open>saveTasks\<close> builds: one object per row
  with the members \<^verbatim>\<open>text\<close> (a string) and \<^verbatim>\<open>completed\<close> (a boolean), in that order,
  and no white space.
\<close>

definition task_object :: "li \<Rightarrow> jsval" where
  "task_object t =
     JObj [(ustr ''text'', JStr (task_text t)), (ustr ''completed'', JBool (completed t))]"

definition stringify_task :: "li \<Rightarrow> ustring" where
  "stringify_task t =
     [0x7B] @ QuoteJSONString (ustr ''text'') @ [0x3A] @ QuoteJSONString (task_text t)
     @ [0x2C] @ QuoteJSONString (ustr ''completed'') @ [0x3A]
     @ (if completed t then ustr ''true'' else ustr ''false'') @ [0x7D]"

fun join_commas :: "ustring list \<Rightarrow> ustring" where
  "join_commas [] = []"
| "join_commas [x] = x"
| "join_commas (x # y # ys) = x @ [0x2C] @ join_commas (y # ys)"

definition JSON_stringify_tasks :: "li list \<Rightarrow> ustring" where
  "JSON_stringify_tasks ts = [0x5B] @ join_commas (map stringify_task ts) @ [0x5D]"

section \<open>The script\<close>

definition saveTasks :: "page \<Rightarrow> page" where
  "saveTasks st =
     st\<lparr>localStorage := (localStorage st)(ustr ''tasks'' \<mapsto> JSON_stringify_tasks (taskList st))\<rparr>"

definition alert_text :: ustring where
  "alert_text = ustr ''Please write down a task before adding it!''"

text \<open>
  \<^verbatim>\<open>addTask(taskText = taskInput.value.trim(), isCompleted = false)\<close>: a default is used
  exactly when the argument is \<^verbatim>\<open>undefined\<close>. The result is the exception thrown, if any,
  and the page as the call left it. An exception can only come from line 57, before the
  row is attached.
\<close>

definition addTask :: "numsem \<Rightarrow> jsval \<Rightarrow> jsval \<Rightarrow> page \<Rightarrow> js_error option \<times> page" where
  "addTask N taskText0 isCompleted0 st =
     (let taskText = (if taskText0 = JUndefined then JStr (trim (taskInput_value st))
                      else taskText0);
          isCompleted = (if isCompleted0 = JUndefined then JBool False else isCompleted0)
      in if taskText = JStr [] then (None, st\<lparr>alerts := alerts st @ [alert_text]\<rparr>)
         else
           (case dom_string N taskText of
              Inl e \<Rightarrow> (Some e, st)
            | Inr t \<Rightarrow>
                (let row = \<lparr>task_text = t, completed = ToBoolean N isCompleted\<rparr>;
                     st1 = st\<lparr>taskList := taskList st @ [row]\<rparr>;
                     st2 = (if \<not> ToBoolean N isCompleted \<and> trim (taskInput_value st1) \<noteq> []
                            then st1\<lparr>taskInput_value := []\<rparr> else st1)
                 in (None, saveTasks st2))))"

text \<open>
  The target of a click inside \<^verbatim>\<open>#task-list\<close>: the list itself, or the \<^verbatim>\<open>li\<close>, the span or
  the delete button of the row at a position. A position beyond the rows names no element,
  and no click.
\<close>

datatype click_target = OnList | OnRow nat | OnText nat | OnDelete nat

fun handleTaskActions :: "click_target \<Rightarrow> page \<Rightarrow> page" where
  "handleTaskActions OnList st = st"
| "handleTaskActions (OnDelete i) st =
     (if i < length (taskList st)
      then saveTasks (st\<lparr>taskList := take i (taskList st) @ drop (Suc i) (taskList st)\<rparr>)
      else st)"
| "handleTaskActions (OnRow i) st =
     (if i < length (taskList st)
      then saveTasks (st\<lparr>taskList :=
             (taskList st)[i := (taskList st ! i)\<lparr>completed := \<not> completed (taskList st ! i)\<rparr>]\<rparr>)
      else st)"
| "handleTaskActions (OnText i) st =
     (if i < length (taskList st)
      then saveTasks (st\<lparr>taskList :=
             (taskList st)[i := (taskList st ! i)\<lparr>completed := \<not> completed (taskList st ! i)\<rparr>]\<rparr>)
      else st)"

text \<open>The loop of \<^verbatim>\<open>loadTasks\<close>: an exception ends it, with the rows added so far in place.\<close>

fun forEach_addTask :: "numsem \<Rightarrow> jsval list \<Rightarrow> page \<Rightarrow> js_error option \<times> page" where
  "forEach_addTask N [] st = (None, st)"
| "forEach_addTask N (task # tasks) st =
     (case get_member task (ustr ''text'') of
        Inl e \<Rightarrow> (Some e, st)
      | Inr t \<Rightarrow>
          (case get_member task (ustr ''completed'') of
             Inl e \<Rightarrow> (Some e, st)
           | Inr c \<Rightarrow>
               (case addTask N t c st of
                  (Some e, st') \<Rightarrow> (Some e, st')
                | (None, st') \<Rightarrow> forEach_addTask N tasks st')))"

text \<open>
  \<^verbatim>\<open>getItem\<close> answers \<^verbatim>\<open>null\<close> for a missing key, and \<^verbatim>\<open>if (savedTasks)\<close> also skips the
  empty string. Only an array has \<^verbatim>\<open>forEach\<close>: on any other parsed value the call throws.
\<close>

definition loadTasks :: "numsem \<Rightarrow> page \<Rightarrow> js_error option \<times> page" where
  "loadTasks N st =
     (case localStorage st (ustr ''tasks'') of
        None \<Rightarrow> (None, st)
      | Some savedTasks \<Rightarrow>
          if savedTasks = [] then (None, st)
          else
            (case JSON_parse savedTasks of
               Inl e \<Rightarrow> (Some e, st)
             | Inr (JArr tasks) \<Rightarrow> forEach_addTask N tasks st
             | Inr _ \<Rightarrow> (Some TypeError, st)))"

definition toggleTheme :: "page \<Rightarrow> page" where
  "toggleTheme st =
     (let st1 = st\<lparr>dark_theme := \<not> dark_theme st\<rparr>;
          currentTheme = (if dark_theme st1 then ustr ''dark'' else ustr ''light'')
      in st1\<lparr>localStorage := (localStorage st1)(ustr ''themePreference'' \<mapsto> currentTheme)\<rparr>)"

definition loadTheme :: "page \<Rightarrow> page" where
  "loadTheme st =
     (case localStorage st (ustr ''themePreference'') of
        None \<Rightarrow> st
      | Some savedTheme \<Rightarrow>
          if savedTheme = [] then st
          else if savedTheme = ustr ''dark'' then st\<lparr>dark_theme := True\<rparr>
          else st\<lparr>dark_theme := False\<rparr>)"

subsection \<open>The listeners\<close>

text \<open>
  Lines 10 to 29. A listener is called with the event as its only argument:
  \<^verbatim>\<open>addButton.addEventListener('click', addTask)\<close> hands the click event to \<^verbatim>\<open>addTask\<close> as
  \<^verbatim>\<open>taskText\<close>, where the keypress listener calls \<^verbatim>\<open>addTask()\<close> with no argument. An
  exception in \<^verbatim>\<open>loadTasks\<close> ends the \<^verbatim>\<open>DOMContentLoaded\<close> listener before \<^verbatim>\<open>loadTheme\<close>.
\<close>

definition on_DOMContentLoaded :: "numsem \<Rightarrow> page \<Rightarrow> js_error option \<times> page" where
  "on_DOMContentLoaded N st =
     (case loadTasks N st of
        (Some e, st') \<Rightarrow> (Some e, st')
      | (None, st') \<Rightarrow> (None, loadTheme st'))"

definition on_addButton_click :: "numsem \<Rightarrow> ustring \<Rightarrow> page \<Rightarrow> js_error option \<times> page" where
  "on_addButton_click N event_interface st = addTask N (JEvent event_interface) JUndefined st"

definition on_taskInput_keypress :: "numsem \<Rightarrow> ustring \<Rightarrow> page \<Rightarrow> js_error option \<times> page" where
  "on_taskInput_keypress N key st =
     (if key = ustr ''Enter'' then addTask N JUndefined JUndefined st else (None, st))"

definition on_themeToggle_click :: "page \<Rightarrow> page" where
  "on_themeToggle_click st = toggleTheme st"

definition on_taskList_click :: "click_target \<Rightarrow> page \<Rightarrow> page" where
  "on_taskList_click target st = handleTaskActions target st"

subsection \<open>Persistence, and the page of a first visit\<close>

text \<open>
  The list is persisted when the \<^verbatim>\<open>tasks\<close> key holds the serialisation of the rows as
  they stand, in document order.
\<close>

definition persisted :: "page \<Rightarrow> bool" where
  "persisted st \<longleftrightarrow>
     localStorage st (ustr ''tasks'') = Some (JSON_stringify_tasks (taskList st))"

text \<open>
  The page as a first visit finds it: an empty input, no rows, the light theme, nothing
  stored. \<open>plain_numbers\<close> is one choice of the number parameters, for closed examples.
\<close>

definition first_run :: page where
  "first_run =
     \<lparr>taskInput_value = [], taskList = [], dark_theme = False, localStorage = Map.empty,
      alerts = []\<rparr>"

definition plain_numbers :: numsem where
  "plain_numbers = \<lparr>NumberToString = (\<lambda>l. l), NumberToBoolean = (\<lambda>l. True)\<rparr>"

definition two_rows :: "li list" where
  "two_rows =
     [\<lparr>task_text = ustr ''Buy milk'', completed = True\<rparr>,
      \<lparr>task_text = ustr ''Walk dog'', completed = False\<rparr>]"

text \<open>
  One operation after another keeps the rows it found and adds some: when it added none it
  left storage alone, and when it added any the list is persisted.
\<close>

definition in_step :: "page \<Rightarrow> page \<Rightarrow> bool" where
  "in_step st st' \<longleftrightarrow>
     (\<exists>ys. taskList st' = taskList st @ ys
           \<and> (ys = [] \<longrightarrow> localStorage st' = localStorage st)
           \<and> (ys \<noteq> [] \<longrightarrow> persisted st'))"

section \<open>JSON.parse inverts JSON.stringify on task arrays\<close>

text \<open>The tokens of a serialised row, and of the rows after the first.\<close>

definition task_tokens :: "li \<Rightarrow> token list" where
  "task_tokens t =
     [TLBrace, TStr (ustr ''text''), TColon, TStr (task_text t), TComma,
      TStr (ustr ''completed''), TColon, (if completed t then TTrue else TFalse), TRBrace]"

definition more_tokens :: "li list \<Rightarrow> token list" where
  "more_tokens ts = concat (map (\<lambda>t. TComma # task_tokens t) ts)"

lemma unat_hex_digit: "d < 16 \<Longrightarrow> unat (hex_digit d) = (if d < 10 then 48 + d else 87 + d)"
  by (simp add: hex_digit_def unat_of_nat)

lemma hex_value_hex_digit: "d < 16 \<Longrightarrow> hex_value (hex_digit d) = Some d"
  by (simp add: hex_value_def unat_hex_digit)

lemma nibbles:
  fixes n :: nat
  shows "4096 * (n div 4096) + 256 * (n div 256 mod 16) + 16 * (n div 16 mod 16) + n mod 16 = n"
proof -
  have a: "n = 16 * (n div 16) + n mod 16" by simp
  have b: "n div 16 = 16 * (n div 256) + n div 16 mod 16"
    using div_mult_mod_eq [of "n div 16" 16] by (simp add: div_mult2_eq [symmetric] mult.commute)
  have c: "n div 256 = 16 * (n div 4096) + n div 256 mod 16"
    using div_mult_mod_eq [of "n div 256" 16] by (simp add: div_mult2_eq [symmetric] mult.commute)
  from a b c show ?thesis by linarith
qed

lemma unhex4_escape:
  "unhex4 (hex_digit (unat c div 4096)) (hex_digit (unat c div 256 mod 16))
     (hex_digit (unat c div 16 mod 16)) (hex_digit (unat c mod 16)) = Some c"
proof -
  have "unat c < 65536" using unsigned_less [of c, where 'a = nat] by simp
  then have "unat c div 4096 < 16" by simp
  then show ?thesis
    by (simp add: unhex4_def hex_value_hex_digit nibbles)
qed

lemma lex_string_UnicodeEscape: "lex_string (UnicodeEscape c @ rest) = put c (lex_string rest)"
  by (simp add: UnicodeEscape_def Let_def unhex4_escape)

lemma lex_string_plain:
  "c \<noteq> 0x22 \<Longrightarrow> c \<noteq> 0x5C \<Longrightarrow> \<not> c < 0x20 \<Longrightarrow> lex_string (c # rest) = put c (lex_string rest)"
  by simp

lemma lex_string_quote_unit: "lex_string (quote_unit c @ rest) = put c (lex_string rest)"
  by (simp add: quote_unit_def lex_string_UnicodeEscape simple_escape_def del: lex_string.simps)
     (simp add: simple_escape_def)

lemma lead_plain: "is_lead c \<Longrightarrow> c \<noteq> 0x22 \<and> c \<noteq> 0x5C \<and> \<not> c < 0x20"
  by (auto simp: is_lead_def word_le_nat_alt word_less_nat_alt)

lemma trail_plain: "is_trail c \<Longrightarrow> c \<noteq> 0x22 \<and> c \<noteq> 0x5C \<and> \<not> c < 0x20"
  by (auto simp: is_trail_def word_le_nat_alt word_less_nat_alt)

lemma lex_string_quote_units:
  "lex_string (quote_units s @ 0x22 # rest) = Some (s, rest)"
proof (induction s rule: quote_units.induct)
  case 1
  show ?case by simp
next
  case (2 c)
  show ?case
    using lex_string_quote_unit [of c "0x22 # rest"] by (simp add: put_def)
next
  case (3 c d cs)
  show ?case
  proof (cases "is_lead c \<and> is_trail d")
    case True
    with 3 lead_plain [of c] trail_plain [of d] show ?thesis
      by (simp add: put_def)
  next
    case False
    then have e: "quote_units (c # d # cs) = quote_unit c @ quote_units (d # cs)"
      by auto
    from False 3 have "lex_string (quote_units (d # cs) @ 0x22 # rest) = Some (d # cs, rest)"
      by blast
    then show ?thesis
      unfolding e using lex_string_quote_unit [of c "quote_units (d # cs) @ 0x22 # rest"]
      by (simp add: put_def del: lex_string.simps quote_units.simps)
  qed
qed


lemma emit_simps [simp]: "emit t None = None" "emit t (Some ts) = Some (t # ts)"
  by (simp_all add: emit_def)

lemma tokenize_punct:
  "tokenize (0x5B # r) = emit TLBrack (tokenize r)"
  "tokenize (0x5D # r) = emit TRBrack (tokenize r)"
  "tokenize (0x7B # r) = emit TLBrace (tokenize r)"
  "tokenize (0x7D # r) = emit TRBrace (tokenize r)"
  "tokenize (0x3A # r) = emit TColon (tokenize r)"
  "tokenize (0x2C # r) = emit TComma (tokenize r)"
  by (simp_all add: is_json_ws_def)

lemma tokenize_QuoteJSONString: "tokenize (QuoteJSONString s @ r) = emit (TStr s) (tokenize r)"
  by (simp add: QuoteJSONString_def is_json_ws_def lex_string_quote_units del: lex_string.simps)

lemma tokenize_true: "tokenize (ustr ''true'' @ r) = emit TTrue (tokenize r)"
  by (simp add: ustr_def is_json_ws_def is_digit_def)

lemma tokenize_false: "tokenize (ustr ''false'' @ r) = emit TFalse (tokenize r)"
  by (simp add: ustr_def is_json_ws_def is_digit_def)


lemma tokenize_stringify_task:
  "tokenize (stringify_task t @ r) =
     (case tokenize r of None \<Rightarrow> None | Some k \<Rightarrow> Some (task_tokens t @ k))"
  by (simp add: stringify_task_def task_tokens_def tokenize_punct tokenize_QuoteJSONString tokenize_true
      tokenize_false del: tokenize.simps split: option.split)

lemma join_commas_Cons: "join_commas (x # xs) = x @ concat (map ((#) 0x2C) xs)"
  by (induction xs arbitrary: x) simp_all

lemma tokenize_more:
  "tokenize (concat (map ((#) 0x2C \<circ> stringify_task) ts) @ r) =
     (case tokenize r of None \<Rightarrow> None | Some k \<Rightarrow> Some (more_tokens ts @ k))"
proof (induction ts)
  case Nil
  show ?case by (simp add: more_tokens_def split: option.split)
next
  case (Cons t ts)
  then show ?case
    by (simp add: more_tokens_def tokenize_punct tokenize_stringify_task del: tokenize.simps
        split: option.split)
qed

lemma tokenize_tasks:
  "tokenize (JSON_stringify_tasks ts) =
     Some (TLBrack # (case ts of [] \<Rightarrow> [] | t # ts' \<Rightarrow> task_tokens t @ more_tokens ts')
           @ [TRBrack])"
proof (cases ts)
  case Nil
  then show ?thesis
    by (simp add: JSON_stringify_tasks_def is_json_ws_def)
next
  case (Cons t ts')
  then show ?thesis
    by (simp add: JSON_stringify_tasks_def join_commas_Cons tokenize_punct tokenize_stringify_task
        tokenize_more del: tokenize.simps(2) join_commas.simps)
qed

lemma parse_task:
  "m = PValue \<or> m = PFirst \<Longrightarrow>
   parse_tokens (m, InArr acc # st) (task_tokens t @ r) =
   parse_tokens (PAfter, InArr (task_object t # acc) # st) r"
  by (auto simp: task_tokens_def task_object_def)

lemma parse_more:
  "parse_tokens (PAfter, InArr acc # []) (more_tokens ts @ [TRBrack]) =
     Some (JArr (rev acc @ map task_object ts))"
proof (induction ts arbitrary: acc)
  case Nil
  show ?case by (simp add: more_tokens_def)
next
  case (Cons t ts)
  have "parse_tokens (PAfter, [InArr acc]) (more_tokens (t # ts) @ [TRBrack]) =
        parse_tokens (PValue, [InArr acc]) (task_tokens t @ more_tokens ts @ [TRBrack])"
    by (simp add: more_tokens_def)
  also have "\<dots> = parse_tokens (PAfter, [InArr (task_object t # acc)]) (more_tokens ts @ [TRBrack])"
    by (rule parse_task) simp
  also have "\<dots> = Some (JArr (rev (task_object t # acc) @ map task_object ts))"
    by (rule Cons.IH)
  finally show ?case by simp
qed

lemma JSON_parse_stringify_tasks:
  "JSON_parse (JSON_stringify_tasks ts) = Inr (JArr (map task_object ts))"
proof (cases ts)
  case Nil
  then show ?thesis by (simp add: JSON_parse_def tokenize_tasks)
next
  case (Cons t ts')
  have "parse_tokens (PValue, []) (TLBrack # task_tokens t @ more_tokens ts' @ [TRBrack]) =
        parse_tokens (PFirst, [InArr []]) (task_tokens t @ more_tokens ts' @ [TRBrack])"
    by simp
  also have "\<dots> = parse_tokens (PAfter, [InArr [task_object t]]) (more_tokens ts' @ [TRBrack])"
    by (rule parse_task) simp
  also have "\<dots> = Some (JArr (rev [task_object t] @ map task_object ts'))"
    by (rule parse_more)
  finally show ?thesis using Cons by (simp add: JSON_parse_def tokenize_tasks)
qed

section \<open>What the script's functions do\<close>

lemma addTask_string:
  "s \<noteq> [] \<Longrightarrow>
   addTask N (JStr s) c st =
     (None, saveTasks
        (st\<lparr>taskList := taskList st @ [\<lparr>task_text = s, completed = ToBoolean N c\<rparr>],
            taskInput_value :=
              (if \<not> ToBoolean N c \<and> trim (taskInput_value st) \<noteq> [] then []
               else taskInput_value st)\<rparr>))"
  by (simp add: addTask_def Let_def dom_string_def)

text \<open>
  The input field after \<^verbatim>\<open>addTask\<close> is called with a stored text and flag, as
  \<^verbatim>\<open>loadTasks\<close> calls it: kept for a completed entry, emptied for one that is not
  completed when the field holds more than white space.
\<close>

lemma addTask_loaded_input:
  "s \<noteq> [] \<Longrightarrow>
   taskInput_value (snd (addTask N (JStr s) (JBool b) st)) =
     (if \<not> b \<and> trim (taskInput_value st) \<noteq> [] then [] else taskInput_value st)"
  by (simp add: addTask_string saveTasks_def)

lemma addTask_blank:
  "trim (taskInput_value st) = [] \<Longrightarrow>
   addTask N JUndefined c st = (None, st\<lparr>alerts := alerts st @ [alert_text]\<rparr>)"
  by (simp add: addTask_def Let_def)

lemma addTask_empty_string:
  "addTask N (JStr []) c st = (None, st\<lparr>alerts := alerts st @ [alert_text]\<rparr>)"
  by (simp add: addTask_def Let_def)

text \<open>
  The keypress listener on Enter, with text in the input: the trimmed text becomes a row
  that is not completed, and the input is cleared.
\<close>

lemma keypress_Enter_appends:
  "trim (taskInput_value st) \<noteq> [] \<Longrightarrow>
   on_taskInput_keypress N (ustr ''Enter'') st =
     (None, saveTasks
        (st\<lparr>taskList :=
              taskList st @ [\<lparr>task_text = trim (taskInput_value st), completed = False\<rparr>],
            taskInput_value := []\<rparr>))"
  by (simp add: on_taskInput_keypress_def addTask_def Let_def dom_string_def)

text \<open>
  The click listener of the add button, whatever the input holds: the row's text is the
  rendering of the event object, and no alert is shown.
\<close>

lemma addButton_click_appends_event:
  "on_addButton_click N ev st =
     (None, saveTasks
        (st\<lparr>taskList :=
              taskList st @ [\<lparr>task_text = ustr ''[object '' @ ev @ ustr '']'', completed = False\<rparr>],
            taskInput_value :=
              (if trim (taskInput_value st) \<noteq> [] then [] else taskInput_value st)\<rparr>))"
  by (simp add: on_addButton_click_def addTask_def Let_def dom_string_def)

lemma persisted_saveTasks: "persisted (saveTasks st)"
  by (simp add: persisted_def saveTasks_def)

lemma taskList_saveTasks: "taskList (saveTasks st) = taskList st"
  by (simp add: saveTasks_def)

lemma trim_blank: "trim (ustr ''   '') = []"
  by (simp add: trim_def ustr_def is_js_space_def)

lemma get_member_task_object:
  "get_member (task_object t) (ustr ''text'') = Inr (JStr (task_text t))"
  "get_member (task_object t) (ustr ''completed'') = Inr (JBool (completed t))"
  by (simp_all add: task_object_def ustr_def)

lemma forEach_addTask_tasks:
  assumes "\<forall>t\<in>set ts. task_text t \<noteq> []"
  shows "fst (forEach_addTask N (map task_object ts) st) = None
         \<and> taskList (snd (forEach_addTask N (map task_object ts) st)) = taskList st @ ts
         \<and> (ts \<noteq> [] \<longrightarrow> persisted (snd (forEach_addTask N (map task_object ts) st)))"
  using assms
proof (induction ts arbitrary: st)
  case Nil
  show ?case by simp
next
  case (Cons t ts)
  define st1 where "st1 = saveTasks
        (st\<lparr>taskList := taskList st @ [\<lparr>task_text = task_text t, completed = completed t\<rparr>],
            taskInput_value :=
              (if \<not> completed t \<and> trim (taskInput_value st) \<noteq> [] then []
               else taskInput_value st)\<rparr>)"
  from Cons.prems have "task_text t \<noteq> []" by simp
  then have a: "addTask N (JStr (task_text t)) (JBool (completed t)) st = (None, st1)"
    by (simp add: addTask_string st1_def)
  have step: "forEach_addTask N (map task_object (t # ts)) st =
              forEach_addTask N (map task_object ts) st1"
    by (simp add: get_member_task_object a)
  have l1: "taskList st1 = taskList st @ [t]"
    by (simp add: st1_def saveTasks_def)
  have p1: "persisted st1"
    unfolding st1_def by (rule persisted_saveTasks)
  from Cons.prems have "\<forall>x\<in>set ts. task_text x \<noteq> []" by simp
  from Cons.IH [OF this, of st1] l1 p1 show ?case
    unfolding step by (cases ts) auto
qed

lemma stringify_nonempty: "JSON_stringify_tasks ts \<noteq> []"
  by (simp add: JSON_stringify_tasks_def)

lemma loadTasks_stringify:
  "localStorage st (ustr ''tasks'') = Some (JSON_stringify_tasks ts) \<Longrightarrow>
   loadTasks N st = forEach_addTask N (map task_object ts) st"
  by (simp add: loadTasks_def stringify_nonempty JSON_parse_stringify_tasks)

lemma JSON_parse_error: "JSON_parse v = Inl e \<Longrightarrow> e = SyntaxError"
  by (auto simp: JSON_parse_def split: option.splits)

subsection \<open>Every operation keeps storage in step with the rows\<close>

lemma in_step_refl: "in_step st st"
  by (simp add: in_step_def)

lemma in_step_trans: "in_step a b \<Longrightarrow> in_step b c \<Longrightarrow> in_step a c"
  by (fastforce simp: in_step_def persisted_def)

lemma in_step_addTask: "in_step st (snd (addTask N a b st))"
  by (auto simp: in_step_def addTask_def Let_def persisted_def saveTasks_def split: sum.splits)

lemma in_step_forEach: "in_step st (snd (forEach_addTask N vs st))"
proof (induction vs arbitrary: st)
  case Nil
  show ?case by (simp add: in_step_refl)
next
  case (Cons v vs)
  show ?case
  proof (cases "get_member v (ustr ''text'')")
    case (Inl e)
    then show ?thesis by (simp add: in_step_refl)
  next
    case t: (Inr t)
    show ?thesis
    proof (cases "get_member v (ustr ''completed'')")
      case (Inl e)
      with t show ?thesis by (simp add: in_step_refl)
    next
      case c: (Inr c)
      obtain r q where a: "addTask N t c st = (r, q)"
        by (cases "addTask N t c st")
      have sq: "in_step st q"
        using in_step_addTask [of st N t c] a by simp
      show ?thesis
      proof (cases r)
        case None
        with t c a have "forEach_addTask N (v # vs) st = forEach_addTask N vs q"
          by simp
        with in_step_trans [OF sq Cons.IH [of q]] show ?thesis by simp
      next
        case (Some e)
        with t c a sq show ?thesis by simp
      qed
    qed
  qed
qed

lemma in_step_loadTasks: "in_step st (snd (loadTasks N st))"
  by (auto simp: loadTasks_def in_step_refl in_step_forEach split: option.splits sum.splits jsval.splits)

lemma in_step_changed:
  "in_step st st' \<Longrightarrow>
     (taskList st' \<noteq> taskList st \<longrightarrow> persisted st')
     \<and> (taskList st' = taskList st \<longrightarrow> localStorage st' = localStorage st)"
  by (auto simp: in_step_def)

lemma toggle_changes:
  assumes "i < length xs"
  shows "xs[i := (xs ! i)\<lparr>completed := \<not> completed (xs ! i)\<rparr>] \<noteq> xs"
proof
  assume "xs[i := (xs ! i)\<lparr>completed := \<not> completed (xs ! i)\<rparr>] = xs"
  then have "xs[i := (xs ! i)\<lparr>completed := \<not> completed (xs ! i)\<rparr>] ! i = xs ! i"
    by simp
  with assms have "(xs ! i)\<lparr>completed := \<not> completed (xs ! i)\<rparr> = xs ! i"
    by simp
  then have "completed ((xs ! i)\<lparr>completed := \<not> completed (xs ! i)\<rparr>) = completed (xs ! i)"
    by simp
  then show False by simp
qed

lemma delete_changes:
  assumes "i < length xs"
  shows "take i xs @ drop (Suc i) xs \<noteq> xs"
proof
  assume "take i xs @ drop (Suc i) xs = xs"
  then have "length (take i xs @ drop (Suc i) xs) = length xs" by simp
  with assms show False by simp
qed

lemma handleTaskActions_changed:
  "(taskList (handleTaskActions tgt st) \<noteq> taskList st \<longrightarrow> persisted (handleTaskActions tgt st))
   \<and> (taskList (handleTaskActions tgt st) = taskList st \<longrightarrow>
        localStorage (handleTaskActions tgt st) = localStorage st)"
  by (cases tgt)
     (simp_all add: persisted_saveTasks taskList_saveTasks toggle_changes delete_changes)

section \<open>The claims\<close>

subsection \<open>C1: a stored task list that does not parse\<close>

text \<open>
  C1, as the code has it. \<^verbatim>\<open>loadTasks\<close> has no handler around \<^verbatim>\<open>JSON.parse\<close>. Where
  the value stored under \<^verbatim>\<open>tasks\<close> does not parse as JSON: if it is the empty string the
  \<^verbatim>\<open>if\<close> skips it, nothing is raised and the page is unchanged; otherwise the
  \<^verbatim>\<open>SyntaxError\<close> leaves \<^verbatim>\<open>loadTasks\<close>, the page (the rows included) is left as it was,
  and the \<^verbatim>\<open>DOMContentLoaded\<close> listener ends before \<^verbatim>\<open>loadTheme\<close> runs.
\<close>

theorem loadTasks_unparseable:
  assumes "localStorage st (ustr ''tasks'') = Some v" and "JSON_parse v = Inl e"
  shows "loadTasks N st = (if v = [] then (None, st) else (Some SyntaxError, st))
         \<and> on_DOMContentLoaded N st =
             (if v = [] then (None, loadTheme st) else (Some SyntaxError, st))"
  using assms JSON_parse_error [OF assms(2)]
  by (simp add: loadTasks_def on_DOMContentLoaded_def)

text \<open>At the stored values \<^verbatim>\<open>not json\<close> and the empty string.\<close>

theorem loadTasks_unparseable_witness:
  "JSON_parse (ustr ''not json'') = Inl SyntaxError
   \<and> fst (loadTasks plain_numbers
        (first_run\<lparr>localStorage := [ustr ''tasks'' \<mapsto> ustr ''not json'']\<rparr>)) = Some SyntaxError
   \<and> taskList (snd (loadTasks plain_numbers
        (first_run\<lparr>localStorage := [ustr ''tasks'' \<mapsto> ustr ''not json'']\<rparr>))) = []
   \<and> JSON_parse [] = Inl SyntaxError
   \<and> fst (loadTasks plain_numbers (first_run\<lparr>localStorage := [ustr ''tasks'' \<mapsto> []]\<rparr>)) = None"
proof -
  have a: "JSON_parse (ustr ''not json'') = Inl SyntaxError" by code_simp
  have b: "JSON_parse [] = Inl SyntaxError" by code_simp
  have c: "ustr ''not json'' \<noteq> []" by (simp add: ustr_def)
  from a b c
    loadTasks_unparseable
      [of "first_run\<lparr>localStorage := [ustr ''tasks'' \<mapsto> ustr ''not json'']\<rparr>"
          "ustr ''not json''" SyntaxError plain_numbers]
    loadTasks_unparseable
      [of "first_run\<lparr>localStorage := [ustr ''tasks'' \<mapsto> []]\<rparr>" "[]" SyntaxError plain_numbers]
  show ?thesis
    by (simp add: first_run_def)
qed

text \<open>
  C1 as stated (no error is raised) fails at a stored value cut short in the middle:
  \<^verbatim>\<open>JSON.parse\<close> rejects it and \<^verbatim>\<open>loadTasks\<close> ends with the \<^verbatim>\<open>SyntaxError\<close>.
\<close>

theorem loadTasks_unparseable_counterexample:
  \<open>JSON_parse (ustr ''[{"text":"a","completed":fal'') = Inl SyntaxError
   \<and> fst (loadTasks plain_numbers
        (first_run\<lparr>localStorage := [ustr ''tasks'' \<mapsto> ustr ''[{"text":"a","completed":fal'']\<rparr>))
     = Some SyntaxError\<close>
  by code_simp

subsection \<open>C2: blank text\<close>

text \<open>
  C2, as the code has it. Only the default of \<^verbatim>\<open>taskText\<close> is trimmed. With an input
  that is empty or white space only, \<^verbatim>\<open>addTask\<close> called without a text (as the keypress
  listener calls it on Enter) shows the alert once, changes nothing else and raises nothing;
  so does \<^verbatim>\<open>addTask\<close> called with the empty string as its text.
\<close>

theorem addTask_rejects_blank:
  "(trim (taskInput_value st) = [] \<longrightarrow>
      addTask N JUndefined c st = (None, st\<lparr>alerts := alerts st @ [alert_text]\<rparr>)
      \<and> on_taskInput_keypress N (ustr ''Enter'') st =
          (None, st\<lparr>alerts := alerts st @ [alert_text]\<rparr>))
   \<and> addTask N (JStr []) c st = (None, st\<lparr>alerts := alerts st @ [alert_text]\<rparr>)"
  by (simp add: addTask_blank addTask_empty_string on_taskInput_keypress_def)

text \<open>At an input of three spaces.\<close>

theorem addTask_rejects_blank_witness:
  "addTask plain_numbers JUndefined JUndefined (first_run\<lparr>taskInput_value := ustr ''   ''\<rparr>)
   = (None, first_run\<lparr>taskInput_value := ustr ''   '', alerts := [alert_text]\<rparr>)"
  using addTask_rejects_blank
    [of "first_run\<lparr>taskInput_value := ustr ''   ''\<rparr>" plain_numbers JUndefined]
  by (simp add: trim_blank first_run_def)

text \<open>
  C2 as stated (every white-space-only text is refused) fails for a text argument of three
  spaces, which is what \<^verbatim>\<open>loadTasks\<close> passes for a stored entry of that text: it is not
  the empty string, so the row is added and no alert is shown.
\<close>

theorem addTask_blank_text_counterexample:
  "trim (ustr ''   '') = []
   \<and> taskList (snd (addTask plain_numbers (JStr (ustr ''   '')) JUndefined first_run))
       = [\<lparr>task_text = ustr ''   '', completed = False\<rparr>]
   \<and> alerts (snd (addTask plain_numbers (JStr (ustr ''   '')) JUndefined first_run)) = []"
  by (simp add: trim_blank addTask_def Let_def dom_string_def saveTasks_def first_run_def)
     (simp add: ustr_def)

subsection \<open>C3: saving, then loading\<close>

text \<open>
  C3. When no row has an empty text, \<^verbatim>\<open>saveTasks\<close> followed by \<^verbatim>\<open>loadTasks\<close> on any
  page whose list is empty and whose storage is what \<^verbatim>\<open>saveTasks\<close> left raises nothing and
  rebuilds the same rows, texts and completion flags, in the same order.
\<close>

theorem persist_then_reload:
  assumes "\<forall>t\<in>set (taskList st). task_text t \<noteq> []"
  shows "fst (loadTasks N (p\<lparr>taskList := [], localStorage := localStorage (saveTasks st)\<rparr>)) = None
         \<and> taskList (snd (loadTasks N
              (p\<lparr>taskList := [], localStorage := localStorage (saveTasks st)\<rparr>))) = taskList st"
proof -
  let ?q = "p\<lparr>taskList := [], localStorage := localStorage (saveTasks st)\<rparr>"
  have "localStorage ?q (ustr ''tasks'') = Some (JSON_stringify_tasks (taskList st))"
    by (simp add: saveTasks_def)
  then have "loadTasks N ?q = forEach_addTask N (map task_object (taskList st)) ?q"
    by (rule loadTasks_stringify)
  with forEach_addTask_tasks [OF assms, of N ?q] show ?thesis
    by simp
qed

text \<open>At the rows \<^verbatim>\<open>Buy milk\<close> (completed) and \<^verbatim>\<open>Walk dog\<close> (not completed).\<close>

theorem persist_then_reload_witness:
  "taskList (snd (loadTasks plain_numbers
      (first_run\<lparr>taskList := [],
         localStorage := localStorage (saveTasks (first_run\<lparr>taskList := two_rows\<rparr>))\<rparr>)))
   = [\<lparr>task_text = ustr ''Buy milk'', completed = True\<rparr>,
      \<lparr>task_text = ustr ''Walk dog'', completed = False\<rparr>]"
  using persist_then_reload [of "first_run\<lparr>taskList := two_rows\<rparr>" plain_numbers first_run]
  by (simp add: two_rows_def ustr_def)

subsection \<open>C4: the input field while stored tasks are loaded\<close>

text \<open>
  C4 says that an \<^verbatim>\<open>addTask\<close> made for a stored entry leaves the input field alone
  whatever it holds, and the comment at line 71 says the reset is for a newly created task,
  not one being loaded. The test at line 72 takes \<^verbatim>\<open>!isCompleted\<close> for "newly created":
  with the stored entry \<^verbatim>\<open>{"text":"a","completed":false}\<close> and \<^verbatim>\<open>draft\<close> in the input,
  \<^verbatim>\<open>loadTasks\<close> empties the input (\<open>addTask_loaded_input\<close> has the general case).
\<close>

theorem loadTasks_clears_input:
  \<open>taskInput_value (snd (loadTasks plain_numbers
      (first_run\<lparr>taskInput_value := ustr ''draft'',
         localStorage := [ustr ''tasks'' \<mapsto> ustr ''[{"text":"a","completed":false}]'']\<rparr>)))
   = []\<close>
  by code_simp

subsection \<open>C5: adding from the input\<close>

text \<open>
  C5 says that a task added from live input keeps its text. On Enter it does
  (\<open>keypress_Enter_appends\<close>), and so does \<^verbatim>\<open>addTask\<close> given a string
  (\<open>addTask_string\<close>). The add button's listener is \<^verbatim>\<open>addTask\<close> itself, so the click
  event arrives as \<^verbatim>\<open>taskText\<close> and the default is not used: with \<^verbatim>\<open>Buy milk\<close> in the
  input, a click adds a row whose text is the rendering of the event.
\<close>

theorem addButton_click_text:
  "taskList (snd (on_addButton_click plain_numbers (ustr ''PointerEvent'')
      (first_run\<lparr>taskInput_value := ustr ''Buy milk''\<rparr>)))
   = [\<lparr>task_text = ustr ''[object PointerEvent]'', completed = False\<rparr>]"
  by (simp add: on_addButton_click_def addTask_def Let_def dom_string_def saveTasks_def
      first_run_def ustr_def)

subsection \<open>C6: what a click in the list does\<close>

text \<open>
  C6. For a row of the list: a click on its delete button removes that row and leaves
  every other row as it was, flags included; a click on the row itself or on its text
  flips that row's \<^verbatim>\<open>completed\<close> and nothing else in the list; a click on the list
  outside every row changes nothing at all.
\<close>

theorem handleTaskActions_dispatch:
  assumes "i < length (taskList st)"
  shows "taskList (handleTaskActions (OnDelete i) st) =
           take i (taskList st) @ drop (Suc i) (taskList st)
         \<and> taskList (handleTaskActions (OnRow i) st) =
           (taskList st)[i := (taskList st ! i)\<lparr>completed := \<not> completed (taskList st ! i)\<rparr>]
         \<and> taskList (handleTaskActions (OnText i) st) =
           (taskList st)[i := (taskList st ! i)\<lparr>completed := \<not> completed (taskList st ! i)\<rparr>]
         \<and> handleTaskActions OnList st = st"
  using assms by (simp add: saveTasks_def)

text \<open>At the first of two rows.\<close>

theorem handleTaskActions_dispatch_witness:
  "taskList (handleTaskActions (OnDelete 0) (first_run\<lparr>taskList := two_rows\<rparr>)) =
     [\<lparr>task_text = ustr ''Walk dog'', completed = False\<rparr>]
   \<and> taskList (handleTaskActions (OnText 0) (first_run\<lparr>taskList := two_rows\<rparr>)) =
     [\<lparr>task_text = ustr ''Buy milk'', completed = False\<rparr>,
      \<lparr>task_text = ustr ''Walk dog'', completed = False\<rparr>]"
  using handleTaskActions_dispatch [of 0 "first_run\<lparr>taskList := two_rows\<rparr>"]
  by (simp add: two_rows_def)

subsection \<open>C7: toggling twice\<close>

text \<open>
  C7. Two toggling clicks on the same row, each on the row or on its text, leave the list
  as it was: the same rows in the same order, with the same texts and flags.
\<close>

theorem toggle_twice_restores:
  "taskList (handleTaskActions (OnRow i) (handleTaskActions (OnRow i) st)) = taskList st
   \<and> taskList (handleTaskActions (OnText i) (handleTaskActions (OnText i) st)) = taskList st
   \<and> taskList (handleTaskActions (OnRow i) (handleTaskActions (OnText i) st)) = taskList st
   \<and> taskList (handleTaskActions (OnText i) (handleTaskActions (OnRow i) st)) = taskList st"
  by (simp add: saveTasks_def list_update_same_conv)

text \<open>At the first of two rows: one click flips the flag, the second restores it.\<close>

theorem toggle_twice_restores_witness:
  "taskList (handleTaskActions (OnRow 0) (handleTaskActions (OnText 0)
      (first_run\<lparr>taskList := two_rows\<rparr>))) = two_rows
   \<and> map completed (taskList (handleTaskActions (OnText 0) (first_run\<lparr>taskList := two_rows\<rparr>)))
       = [False, False]
   \<and> map completed two_rows = [True, False]"
  using toggle_twice_restores [of 0 "first_run\<lparr>taskList := two_rows\<rparr>"]
  by (simp add: two_rows_def saveTasks_def)

subsection \<open>C8: loading the theme\<close>

text \<open>
  C8. \<^verbatim>\<open>loadTheme\<close> changes nothing but the theme. A stored \<^verbatim>\<open>dark\<close> gives the dark
  theme; any other stored value that is not empty gives the light theme; with no value
  stored, or the empty string, the theme stays what it was. So on a page that starts in
  the light theme, as a page does when \<^verbatim>\<open>loadTheme\<close> runs, the theme afterwards is dark
  exactly when the value stored under \<^verbatim>\<open>themePreference\<close> is \<^verbatim>\<open>dark\<close>, and light for
  any other value or none.
\<close>

theorem loadTheme_dark_iff_stored_dark:
  "(localStorage st (ustr ''themePreference'') = Some (ustr ''dark'') \<longrightarrow>
      dark_theme (loadTheme st))
   \<and> (localStorage st (ustr ''themePreference'') = Some v \<and> v \<noteq> ustr ''dark'' \<and> v \<noteq> [] \<longrightarrow>
      \<not> dark_theme (loadTheme st))
   \<and> (localStorage st (ustr ''themePreference'') = None
       \<or> localStorage st (ustr ''themePreference'') = Some [] \<longrightarrow> loadTheme st = st)
   \<and> (\<not> dark_theme st \<longrightarrow>
        (dark_theme (loadTheme st) \<longleftrightarrow>
           localStorage st (ustr ''themePreference'') = Some (ustr ''dark'')))
   \<and> loadTheme st = st\<lparr>dark_theme := dark_theme (loadTheme st)\<rparr>"
  by (auto simp: loadTheme_def ustr_def split: option.splits)

text \<open>At the stored values \<^verbatim>\<open>dark\<close> and \<^verbatim>\<open>Dark\<close>, and with nothing stored.\<close>

theorem loadTheme_dark_iff_stored_dark_witness:
  "dark_theme (loadTheme (first_run\<lparr>localStorage := [ustr ''themePreference'' \<mapsto> ustr ''dark'']\<rparr>))
   \<and> \<not> dark_theme (loadTheme (first_run\<lparr>localStorage := [ustr ''themePreference'' \<mapsto> ustr ''Dark'']\<rparr>))
   \<and> \<not> dark_theme (loadTheme first_run)"
  using loadTheme_dark_iff_stored_dark
          [of "first_run\<lparr>localStorage := [ustr ''themePreference'' \<mapsto> ustr ''dark'']\<rparr>"
              "ustr ''dark''"]
        loadTheme_dark_iff_stored_dark
          [of "first_run\<lparr>localStorage := [ustr ''themePreference'' \<mapsto> ustr ''Dark'']\<rparr>"
              "ustr ''Dark''"]
        loadTheme_dark_iff_stored_dark [of first_run "[]"]
  by (simp add: first_run_def ustr_def)

subsection \<open>C9: toggling the theme, then loading it\<close>

text \<open>
  C9. From every page, \<^verbatim>\<open>toggleTheme\<close> flips the theme and stores \<^verbatim>\<open>dark\<close> or
  \<^verbatim>\<open>light\<close> to match; \<^verbatim>\<open>loadTheme\<close> on any page with that storage, whatever its own
  theme was, ends in the theme the toggle set.
\<close>

theorem toggleTheme_then_loadTheme:
  "dark_theme (toggleTheme st) = (\<not> dark_theme st)
   \<and> localStorage (toggleTheme st) (ustr ''themePreference'') =
       Some (if dark_theme (toggleTheme st) then ustr ''dark'' else ustr ''light'')
   \<and> dark_theme (loadTheme (p\<lparr>localStorage := localStorage (toggleTheme st)\<rparr>)) =
       dark_theme (toggleTheme st)"
  by (simp add: toggleTheme_def loadTheme_def Let_def ustr_def)

text \<open>From the page of a first visit: the toggle sets dark, and a new visit loads dark.\<close>

theorem toggleTheme_then_loadTheme_witness:
  "dark_theme (toggleTheme first_run)
   \<and> localStorage (toggleTheme first_run) (ustr ''themePreference'') = Some (ustr ''dark'')
   \<and> dark_theme (loadTheme (first_run\<lparr>localStorage := localStorage (toggleTheme first_run)\<rparr>))"
  using toggleTheme_then_loadTheme [of first_run first_run]
  by (simp add: first_run_def)

subsection \<open>C10: storage follows the list\<close>

text \<open>
  C10, as the code has it. \<^verbatim>\<open>saveTasks\<close> runs where a row is added, toggled or removed,
  and nowhere else. So for \<^verbatim>\<open>addTask\<close>, for a click in the list and for \<^verbatim>\<open>loadTasks\<close>:
  when the call changed the list, the value stored under \<^verbatim>\<open>tasks\<close> is the serialisation
  of the list as it now stands; when it did not, storage is what it was. In particular
  \<^verbatim>\<open>loadTasks\<close> on an empty list, reading what \<^verbatim>\<open>saveTasks\<close> wrote for rows with
  non-empty texts, rebuilds those rows and leaves them persisted.
\<close>

theorem collection_change_is_persisted:
  "(taskList (snd (addTask N a b st)) \<noteq> taskList st \<longrightarrow> persisted (snd (addTask N a b st)))
   \<and> (taskList (snd (addTask N a b st)) = taskList st \<longrightarrow>
        localStorage (snd (addTask N a b st)) = localStorage st)
   \<and> (taskList (handleTaskActions tgt st) \<noteq> taskList st \<longrightarrow>
        persisted (handleTaskActions tgt st))
   \<and> (taskList (handleTaskActions tgt st) = taskList st \<longrightarrow>
        localStorage (handleTaskActions tgt st) = localStorage st)
   \<and> (taskList (snd (loadTasks N st)) \<noteq> taskList st \<longrightarrow> persisted (snd (loadTasks N st)))
   \<and> (taskList (snd (loadTasks N st)) = taskList st \<longrightarrow>
        localStorage (snd (loadTasks N st)) = localStorage st)
   \<and> ((\<forall>t\<in>set ts. task_text t \<noteq> []) \<and> taskList st = []
        \<and> localStorage st (ustr ''tasks'') = Some (JSON_stringify_tasks ts) \<longrightarrow>
        taskList (snd (loadTasks N st)) = ts \<and> persisted (snd (loadTasks N st)))"
proof -
  have reload: "taskList (snd (loadTasks N st)) = ts \<and> persisted (snd (loadTasks N st))"
    if t: "\<forall>t\<in>set ts. task_text t \<noteq> []" and e: "taskList st = []"
      and s: "localStorage st (ustr ''tasks'') = Some (JSON_stringify_tasks ts)"
  proof (cases "ts = []")
    case True
    with e s loadTasks_stringify [OF s, of N] show ?thesis
      by (simp add: persisted_def)
  next
    case False
    with e forEach_addTask_tasks [OF t, of N st] loadTasks_stringify [OF s, of N] show ?thesis
      by simp
  qed
  from reload
    in_step_changed [OF in_step_addTask [of st N a b]]
    in_step_changed [OF in_step_loadTasks [of st N]]
    handleTaskActions_changed [of tgt st]
  show ?thesis by blast
qed

text \<open>
  At a first visit: \<^verbatim>\<open>Buy milk\<close> added on Enter is persisted, and so is the list after
  a click on a row.
\<close>

theorem collection_change_is_persisted_witness:
  "persisted (snd (addTask plain_numbers JUndefined JUndefined
      (first_run\<lparr>taskInput_value := ustr ''Buy milk''\<rparr>)))
   \<and> persisted (handleTaskActions (OnRow 0) (first_run\<lparr>taskList := two_rows\<rparr>))"
  using collection_change_is_persisted
    [of plain_numbers JUndefined JUndefined "first_run\<lparr>taskInput_value := ustr ''Buy milk''\<rparr>"]
    collection_change_is_persisted [of _ _ _ "first_run\<lparr>taskList := two_rows\<rparr>" "OnRow 0"]
  by (simp add: first_run_def two_rows_def addTask_def Let_def dom_string_def trim_def
      is_js_space_def ustr_def saveTasks_def)

text \<open>
  C10 as stated (after \<^verbatim>\<open>loadTasks\<close> the stored value is the serialisation of the list)
  fails on a first visit: there is nothing to add, so nothing is written, and the key stays
  absent where the serialisation of the empty list is \<^verbatim>\<open>[]\<close>.
\<close>

theorem reload_first_run_counterexample:
  "fst (loadTasks plain_numbers first_run) = None
   \<and> localStorage (snd (loadTasks plain_numbers first_run)) (ustr ''tasks'') = None
   \<and> taskList (snd (loadTasks plain_numbers first_run)) = []
   \<and> JSON_stringify_tasks [] = ustr ''[]''
   \<and> \<not> persisted (snd (loadTasks plain_numbers first_run))"
  by (simp add: loadTasks_def first_run_def persisted_def JSON_stringify_tasks_def ustr_def)

end
